theory Spec2Isabelle
  imports Main "HOL-Library.Sublist"
begin

section \<open>Python values used by the Gemini service\<close>

text \<open>
  A Python \<open>str\<close> is a sequence of Unicode code points, so a string is a list of
  code points (natural numbers) and \<open>length\<close> counts what Python's \<open>len\<close> counts.
  \<open>ascii\<close> reads an ASCII literal as such a string; the line feed is code point 10,
  the double quote 34 and the apostrophe 39.
\<close>

type_synonym pystr = "nat list"

abbreviation ascii :: "string \<Rightarrow> pystr" where
  "ascii s \<equiv> map of_char s"

text \<open>
  A raised exception: its class name and the text \<open>str(e)\<close> gives. \<open>Exception\<close> is an
  instance of Python's class \<open>Exception\<close>, which \<open>except Exception\<close> catches;
  \<open>BaseExceptionOnly\<close> is an instance of \<open>BaseException\<close> outside that class
  (\<open>asyncio.CancelledError\<close>, \<open>SystemExit\<close>, \<open>KeyboardInterrupt\<close>, \<open>GeneratorExit\<close>),
  which \<open>except Exception\<close> lets through.
\<close>

datatype exn = is_Exception: Exception string pystr | BaseExceptionOnly string pystr

fun exn_str :: "exn \<Rightarrow> pystr" where
  "exn_str (Exception cls m) = m"
| "exn_str (BaseExceptionOnly cls m) = m"

text \<open>The values a history entry may hold, their truth value and their rendering
  inside an f-string.\<close>

datatype pyval = PNone | PBool bool | PStr pystr

fun truthy :: "pyval \<Rightarrow> bool" where
  "truthy PNone = False"
| "truthy (PBool b) = b"
| "truthy (PStr s) = (s \<noteq> [])"

fun format_val :: "pyval \<Rightarrow> pystr" where
  "format_val PNone = ascii ''None''"
| "format_val (PBool b) = (if b then ascii ''True'' else ascii ''False'')"
| "format_val (PStr s) = s"

text \<open>Dictionaries: \<open>d.get(k, default)\<close> never raises, \<open>d[k]\<close> raises \<open>KeyError\<close>
  on a missing key.\<close>

definition dict_get :: "('k \<rightharpoonup> 'v) \<Rightarrow> 'k \<Rightarrow> 'v \<Rightarrow> 'v" where
  "dict_get d k dflt = (case d k of None \<Rightarrow> dflt | Some v \<Rightarrow> v)"

definition dict_getitem :: "(pystr \<rightharpoonup> 'v) \<Rightarrow> pystr \<Rightarrow> exn + 'v" where
  "dict_getitem d k = (case d k of None \<Rightarrow> Inl (Exception ''KeyError'' k) | Some v \<Rightarrow> Inr v)"

text \<open>\<open>xs[-n:]\<close>: the whole list when it has at most \<open>n\<close> elements, its last \<open>n\<close>
  otherwise.\<close>

definition slice_last :: "nat \<Rightarrow> 'a list \<Rightarrow> 'a list" where
  "slice_last n xs = (if length xs \<le> n then xs else drop (length xs - n) xs)"

text \<open>\<open>str.strip()\<close> without argument removes leading and trailing whitespace, the
  code points for which \<open>str.isspace\<close> holds.\<close>

definition py_isspace :: "nat \<Rightarrow> bool" where
  "py_isspace c = ((9 \<le> c \<and> c \<le> 13) \<or> (28 \<le> c \<and> c \<le> 32) \<or> c = 133 \<or> c = 160
      \<or> c = 5760 \<or> (8192 \<le> c \<and> c \<le> 8202) \<or> c = 8232 \<or> c = 8233 \<or> c = 8239
      \<or> c = 8287 \<or> c = 12288)"

definition lstrip :: "pystr \<Rightarrow> pystr" where
  "lstrip s = dropWhile py_isspace s"

definition rstrip :: "pystr \<Rightarrow> pystr" where
  "rstrip s = rev (dropWhile py_isspace (rev s))"

definition strip :: "pystr \<Rightarrow> pystr" where
  "strip s = rstrip (lstrip s)"

text \<open>\<open>s.replace(old, new)\<close> for a pattern \<open>old\<close> of one character.\<close>

fun replace_char :: "nat \<Rightarrow> pystr \<Rightarrow> pystr \<Rightarrow> pystr" where
  "replace_char old new [] = []"
| "replace_char old new (c # s) = (if c = old then new else [c]) @ replace_char old new s"

text \<open>Log records written through the module's logger.\<close>

datatype level = INFO | WARNING | ERROR

type_synonym log = "(level \<times> pystr) list"

text \<open>The remote model: the awaited call \<open>await asyncio.to_thread(generate_content, prompt)\<close>
  takes the prompt and raises or returns a response, whose \<open>text\<close> property raises or
  yields a string (\<open>None\<close> when missing). What it raises may be of either kind: an error of
  the client library, or the cancellation of the awaiting task.\<close>

datatype response = Response (response_text: "exn + pystr option")

type_synonym remote = "pystr \<Rightarrow> exn + response"

text \<open>\<open>if response.text:\<close> takes the first branch on a non-empty string, which is then
  at hand there, and the second on \<open>None\<close> and on the empty string.\<close>

fun nonempty_text :: "pystr option \<Rightarrow> pystr option" where
  "nonempty_text None = None"
| "nonempty_text (Some s) = (if s = [] then None else Some s)"

section \<open>Construction\<close>

text \<open>
  \<open>config("GEMINI_API_KEY")\<close> of python-decouple, called without a default, returns the
  configured string or raises \<open>UndefinedValueError\<close> when the variable is not defined.
  The configuration source is a map from names to values.
\<close>

definition config :: "(pystr \<rightharpoonup> pystr) \<Rightarrow> pystr \<Rightarrow> exn + pystr" where
  "config env option = (case env option of
      None \<Rightarrow> Inl (Exception ''UndefinedValueError''
                (option @ ascii '' not found. Declare it as envvar or define a default value.''))
    | Some v \<Rightarrow> Inr v)"

definition placeholder_key :: pystr where
  "placeholder_key = ascii ''your_gemini_api_key_here''"

record 'm GeminiService =
  api_key :: pystr
  model :: 'm

text \<open>
  \<open>__init__\<close>. After the guard on the key the constructor configures the client
  library and builds the model object from fixed generation and safety settings; that
  library call is the parameter \<open>new_model\<close>, which may raise.
\<close>

definition init :: "(pystr \<rightharpoonup> pystr) \<Rightarrow> (pystr \<Rightarrow> exn + 'm) \<Rightarrow> exn + 'm GeminiService \<times> log" where
  "init env new_model = (case config env (ascii ''GEMINI_API_KEY'') of
      Inl e \<Rightarrow> Inl e
    | Inr key \<Rightarrow>
        if key = [] \<or> key = placeholder_key
        then Inl (Exception ''ValueError''
               (ascii ''GEMINI_API_KEY not found or not set properly in environment variables''))
        else (case new_model key of
            Inl e \<Rightarrow> Inl e
          | Inr m \<Rightarrow> Inr (\<lparr>api_key = key, model = m\<rparr>,
                         [(INFO, ascii ''Gemini AI service initialized successfully'')])))"

section \<open>Reply generation\<close>

subsection \<open>The mood templates\<close>

definition default_template :: pystr where
  "default_template =
    ascii ''You are a helpful, friendly, and balanced AI assistant. '' @ [226, 353, 161] @ ascii '' You provide clear, accurate, and well-structured responses while maintaining a warm and approachable tone. You adapt your communication style to the user's needs, being comprehensive when detail is needed and concise when brevity is preferred. You're knowledgeable, reliable, and always aim to be genuinely helpful.''"

definition funny_template :: pystr where
  "funny_template =
    ascii ''You are a hilarious AI assistant with a great sense of humor! '' @ [240, 376, 732, 8222] @ ascii '' You love making people laugh with witty jokes, puns, and funny observations. Keep your responses entertaining while still being helpful. Use emojis, wordplay, and light-hearted humor. Make conversations enjoyable and memorable! Don't be afraid to be silly and playful.''"

definition roasting_template :: pystr where
  "roasting_template =
    ascii ''You are a witty AI with a sharp tongue and a talent for playful roasting! '' @ [240, 376, 8221, 165] @ ascii '' You deliver clever burns and sarcastic remarks while keeping things fun and not mean-spirited. Your responses should be witty, a bit cheeky, and entertainingly sassy. Roast users playfully while still being helpful. Keep it fun, not hurtful! Think friendly banter, not actual insults.''"

definition precise_template :: pystr where
  "precise_template =
    ascii ''You are a precise, efficient AI assistant. '' @ [240, 376, 381, 175] @ ascii '' You provide clear, direct, and concise answers. You focus on accuracy and getting straight to the point without unnecessary fluff. Your responses are well-structured, factual, and exactly what the user needs to know. Be professional and informative.''"

definition intellectual_template :: pystr where
  "intellectual_template =
    ascii ''You are a highly intellectual AI with deep knowledge across many fields. '' @ [240, 376, 167, 160] @ ascii '' You provide thoughtful, analytical responses that explore topics in depth. You enjoy philosophical discussions, complex problem-solving, and sharing insights. Your responses demonstrate critical thinking, nuanced understanding, and scholarly depth. Reference relevant theories, concepts, and expert perspectives when appropriate.''"

definition mood_prompts :: "pystr \<rightharpoonup> pystr" where
  "mood_prompts = map_of
    [(ascii ''default'', default_template),
     (ascii ''funny'', funny_template),
     (ascii ''roasting'', roasting_template),
     (ascii ''precise'', precise_template),
     (ascii ''intellectual'', intellectual_template)]"

text \<open>\<open>mood_prompts.get(mood, mood_prompts["default"])\<close>: the default argument is
  evaluated first.\<close>

definition system_prompt :: "pystr \<Rightarrow> exn + pystr" where
  "system_prompt mood = (case dict_getitem mood_prompts (ascii ''default'') of
      Inl e \<Rightarrow> Inl e
    | Inr dflt \<Rightarrow> Inr (dict_get mood_prompts mood dflt))"

subsection \<open>The conversation context\<close>

type_synonym msg = "pystr \<rightharpoonup> pyval"

definition role :: "msg \<Rightarrow> pystr" where
  "role m = (if truthy (dict_get m (ascii ''is_user_message'') PNone)
             then ascii ''User'' else ascii ''Assistant'')"

text \<open>The text one loop iteration appends:
  \<open>f"{role}: {msg.get('content', '')}\n"\<close>.\<close>

definition render_turn :: "msg \<Rightarrow> pystr" where
  "render_turn m = role m @ ascii '': '' @ format_val (dict_get m (ascii ''content'') (PStr [])) @ [10]"

fun context_loop :: "msg list \<Rightarrow> pystr \<Rightarrow> pystr" where
  "context_loop [] ctx = ctx"
| "context_loop (m # ms) ctx = context_loop ms (ctx @ render_turn m)"

text \<open>The history argument is \<open>None\<close> or a list; \<open>None\<close> and the empty list are both
  false and leave the context empty.\<close>

definition build_context :: "msg list option \<Rightarrow> pystr" where
  "build_context conversation_history = (case conversation_history of
      None \<Rightarrow> []
    | Some h \<Rightarrow> if h = [] then [] else context_loop (slice_last 10 h) [])"

text \<open>The history entry \<open>{"is_user_message": u, "content": c}\<close>.\<close>

definition turn :: "bool \<Rightarrow> pystr \<Rightarrow> msg" where
  "turn u c = [ascii ''is_user_message'' \<mapsto> PBool u, ascii ''content'' \<mapsto> PStr c]"

subsection \<open>The prompt and the reply\<close>

definition full_prompt :: "pystr \<Rightarrow> msg list option \<Rightarrow> pystr \<Rightarrow> exn + pystr" where
  "full_prompt message conversation_history mood = (case system_prompt mood of
      Inl e \<Rightarrow> Inl e
    | Inr sp \<Rightarrow>
        let ctx = build_context conversation_history in
        if ctx \<noteq> []
        then Inr (sp @ [10, 10] @ ascii ''Conversation history:'' @ [10] @ ctx @ [10]
                  @ ascii ''User: '' @ message @ [10] @ ascii ''Assistant:'')
        else Inr (sp @ [10, 10] @ ascii ''User: '' @ message @ [10] @ ascii ''Assistant:''))"

definition empty_reply :: pystr where
  "empty_reply = ascii ''I apologize, but I couldn't generate a response at the moment. Please try again.''"

definition error_reply :: pystr where
  "error_reply = ascii ''I'm sorry, but I encountered an error while processing your request. Please try again later.''"

text \<open>The body of the \<open>try\<close> block: any exception leaves it as \<open>Inl\<close>.\<close>

definition generate_response_try :: "remote \<Rightarrow> pystr \<Rightarrow> msg list option \<Rightarrow> pystr \<Rightarrow> exn + log \<times> pystr" where
  "generate_response_try generate_content message conversation_history mood =
    (case full_prompt message conversation_history mood of
      Inl e \<Rightarrow> Inl e
    | Inr p \<Rightarrow> (case generate_content p of
        Inl e \<Rightarrow> Inl e
      | Inr r \<Rightarrow> (case response_text r of
          Inl e \<Rightarrow> Inl e
        | Inr t \<Rightarrow>
            (case nonempty_text t of
              Some s \<Rightarrow> Inr ([], strip s)
            | None \<Rightarrow> Inr ([(WARNING, ascii ''Empty response from Gemini API'')], empty_reply)))))"

text \<open>\<open>generate_response\<close>: the \<open>except Exception\<close> handler catches the instances of
  \<open>Exception\<close>, logs the error and returns the apology; any other exception passes
  through it. The result is the log written and what the caller receives, \<open>Inl\<close> for an
  exception that reaches the caller.\<close>

definition generate_response :: "remote \<Rightarrow> pystr \<Rightarrow> msg list option \<Rightarrow> pystr \<Rightarrow> log \<times> (exn + pystr)" where
  "generate_response generate_content message conversation_history mood =
    (case generate_response_try generate_content message conversation_history mood of
      Inl (Exception cls m) \<Rightarrow>
        ([(ERROR, ascii ''Error generating response with Gemini: '' @ exn_str (Exception cls m))],
         Inr error_reply)
    | Inl (BaseExceptionOnly cls m) \<Rightarrow> ([], Inl (BaseExceptionOnly cls m))
    | Inr (lg, s) \<Rightarrow> (lg, Inr s))"

section \<open>Title generation\<close>

definition title_prompt :: "pystr \<Rightarrow> pystr" where
  "title_prompt first_message =
    ascii ''Generate a short, descriptive title (3-6 words) for a conversation that starts with this message: ''
    @ [34] @ first_message @ [34, 10, 10]
    @ ascii ''            The title should capture the main topic or theme. Return only the title, no additional text.''"

definition generate_chat_title_try :: "remote \<Rightarrow> pystr \<Rightarrow> exn + pystr" where
  "generate_chat_title_try generate_content first_message =
    (case generate_content (title_prompt first_message) of
      Inl e \<Rightarrow> Inl e
    | Inr r \<Rightarrow> (case response_text r of
        Inl e \<Rightarrow> Inl e
      | Inr t \<Rightarrow>
          (case nonempty_text t of
            Some s \<Rightarrow> (let title = replace_char 39 [] (replace_char 34 [] (strip s))
                       in Inr (take 50 title))
          | None \<Rightarrow> Inr (ascii ''New Conversation''))))"

text \<open>\<open>generate_chat_title\<close>, with the same \<open>except Exception\<close> handler.\<close>

definition generate_chat_title :: "remote \<Rightarrow> pystr \<Rightarrow> log \<times> (exn + pystr)" where
  "generate_chat_title generate_content first_message =
    (case generate_chat_title_try generate_content first_message of
      Inl (Exception cls m) \<Rightarrow>
        ([(ERROR, ascii ''Error generating chat title: '' @ exn_str (Exception cls m))],
         Inr (ascii ''New Conversation''))
    | Inl (BaseExceptionOnly cls m) \<Rightarrow> ([], Inl (BaseExceptionOnly cls m))
    | Inr s \<Rightarrow> ([], Inr s))"

section \<open>Remote calls used as inputs\<close>

text \<open>A remote call that raises \<open>e\<close> on every prompt, and one that returns the text \<open>t\<close>
  on every prompt.\<close>

definition raising :: "exn \<Rightarrow> remote" where
  "raising e p = Inl e"

definition answering :: "pystr option \<Rightarrow> remote" where
  "answering t p = Inr (Response (Inr t))"

section \<open>The prompt as the specification composes it\<close>

text \<open>
  The specification's wording of the composition, for comparison with \<open>full_prompt\<close>:
  the system prompt, a blank line, then, if the context is non-empty,
  \<open>"Conversation history:\n"\<close> followed by the rendered context, then
  \<open>"User: <message>\nAssistant:"\<close>.
\<close>

definition spec_full_prompt :: "pystr \<Rightarrow> pystr \<Rightarrow> pystr \<Rightarrow> pystr" where
  "spec_full_prompt sp ctx message =
     sp @ [10, 10]
     @ (if ctx \<noteq> [] then ascii ''Conversation history:'' @ [10] @ ctx else [])
     @ ascii ''User: '' @ message @ [10] @ ascii ''Assistant:''"

section \<open>Auxiliary facts\<close>

lemma mood_prompts_default: "mood_prompts (ascii ''default'') = Some default_template"
  by (simp add: mood_prompts_def)

lemma system_prompt_eq: "system_prompt mood = Inr (dict_get mood_prompts mood default_template)"
  using mood_prompts_default by (simp add: system_prompt_def dict_getitem_def)

lemma context_loop_concat: "context_loop ms ctx = ctx @ concat (map render_turn ms)"
  by (induction ms arbitrary: ctx) simp_all

lemma slice_last_drop: "slice_last n xs = drop (length xs - n) xs"
  by (simp add: slice_last_def)

lemma build_context_Some: "build_context (Some h) = concat (map render_turn (slice_last 10 h))"
  by (simp add: build_context_def context_loop_concat slice_last_def)

lemma full_prompt_total: "\<exists>p. full_prompt message h mood = Inr p"
  by (simp add: full_prompt_def system_prompt_eq Let_def)

lemma full_prompt_starts_with_system_prompt:
  "\<exists>sp rest. system_prompt mood = Inr sp \<and> full_prompt message h mood = Inr (sp @ rest)"
  by (simp add: full_prompt_def system_prompt_eq Let_def)

lemma dropWhile_all: "list_all P xs \<Longrightarrow> dropWhile P xs = []"
  by (induction xs) simp_all

lemma strip_whitespace_only: "list_all py_isspace s \<Longrightarrow> strip s = []"
  by (simp add: strip_def lstrip_def rstrip_def dropWhile_all)

lemma strip_decomposition:
  "\<exists>a b. s = a @ strip s @ b \<and> list_all py_isspace a \<and> list_all py_isspace b"
proof -
  let ?l = "dropWhile py_isspace s"
  have 1: "s = takeWhile py_isspace s @ ?l" by simp
  have 2: "rev ?l = takeWhile py_isspace (rev ?l) @ dropWhile py_isspace (rev ?l)" by simp
  have "?l = rev (dropWhile py_isspace (rev ?l)) @ rev (takeWhile py_isspace (rev ?l))"
    by (metis 2 rev_append rev_rev_ident)
  then have 3: "?l = strip s @ rev (takeWhile py_isspace (rev ?l))"
    by (simp add: strip_def lstrip_def rstrip_def)
  have 4: "list_all py_isspace (takeWhile py_isspace s)"
    by (simp add: list_all_iff) (meson set_takeWhileD)
  have 5: "list_all py_isspace (rev (takeWhile py_isspace (rev ?l)))"
    by (simp add: list_all_iff) (meson set_takeWhileD)
  from 1 3 have "s = takeWhile py_isspace s @ strip s @ rev (takeWhile py_isspace (rev ?l))"
    by metis
  with 4 5 show ?thesis by blast
qed

lemma hd_rev_dropWhile_rev:
  assumes "xs \<noteq> []" and "\<not> P (hd xs)"
  shows "hd (rev (dropWhile P (rev xs))) = hd xs"
proof -
  obtain y ys where xs: "xs = y # ys" using assms(1) by (cases xs) auto
  with assms(2) have "\<not> P y" by simp
  then have "dropWhile P (rev ys @ [y]) = dropWhile P (rev ys) @ [y]"
    by (simp add: dropWhile_append3)
  then show ?thesis by (simp add: xs)
qed

lemma strip_ends:
  assumes "strip s \<noteq> []"
  shows "\<not> py_isspace (hd (strip s)) \<and> \<not> py_isspace (last (strip s))"
proof -
  let ?l = "dropWhile py_isspace s"
  from assms have ne: "dropWhile py_isspace (rev ?l) \<noteq> []"
    by (simp add: strip_def lstrip_def rstrip_def)
  then have "\<not> py_isspace (hd (dropWhile py_isspace (rev ?l)))"
    by (rule hd_dropWhile)
  then have last: "\<not> py_isspace (last (strip s))"
    using ne by (simp add: strip_def lstrip_def rstrip_def last_rev)
  have lne: "?l \<noteq> []"
  proof
    assume "?l = []"
    then have "dropWhile py_isspace (rev ?l) = []" by (simp del: dropWhile_eq_Nil_conv)
    with ne show False by contradiction
  qed
  then have h: "\<not> py_isspace (hd ?l)" by (rule hd_dropWhile)
  have "hd (strip s) = hd ?l"
    using hd_rev_dropWhile_rev [of "dropWhile py_isspace s" py_isspace] lne h by (simp add: strip_def lstrip_def rstrip_def)
  with h last show ?thesis by simp
qed

lemma replace_char_filter: "replace_char old [] s = filter (\<lambda>c. c \<noteq> old) s"
  by (induction s) simp_all

lemma render_turn_turn:
  "render_turn (turn u c) = (if u then ascii ''User'' else ascii ''Assistant'') @ ascii '': '' @ c @ [10]"
  by (simp add: render_turn_def role_def turn_def dict_get_def)

lemma system_prompt_default: "system_prompt (ascii ''default'') = Inr default_template"
  by (simp add: system_prompt_eq dict_get_def mood_prompts_def)

lemma default_prompt_has_no_history_section:
  "\<not> sublist (ascii ''Conversation history:'')
      (default_template @ [10, 10] @ ascii ''User: Hi'' @ [10] @ ascii ''Assistant:'')"
proof
  assume "sublist (ascii ''Conversation history:'')
      (default_template @ [10, 10] @ ascii ''User: Hi'' @ [10] @ ascii ''Assistant:'')"
  then have "set (ascii ''Conversation history:'')
      \<subseteq> set (default_template @ [10, 10] @ ascii ''User: Hi'' @ [10] @ ascii ''Assistant:'')"
    by (rule set_mono_sublist)
  then have "of_char CHR ''C''
      \<in> set (default_template @ [10, 10] @ ascii ''User: Hi'' @ [10] @ ascii ''Assistant:'')"
    by simp
  then show False by (simp add: default_template_def)
qed

lemma generate_response_caught:
  assumes "generate_response_try gc message h mood = Inl (Exception cls m)"
  shows "generate_response gc message h mood =
           ([(ERROR, ascii ''Error generating response with Gemini: '' @ m)], Inr error_reply)"
  using assms by (simp add: generate_response_def)

lemma generate_response_try_Inl:
  assumes "generate_response_try gc message h mood = Inl e"
  shows "\<exists>p. full_prompt message h mood = Inr p
           \<and> (gc p = Inl e \<or> (\<exists>r. gc p = Inr r \<and> response_text r = Inl e))"
proof -
  obtain p where p: "full_prompt message h mood = Inr p" using full_prompt_total by blast
  show ?thesis
  proof (cases "gc p")
    case (Inl e')
    with p assms show ?thesis by (simp add: generate_response_try_def)
  next
    case (Inr r)
    with p assms show ?thesis
      by (cases "response_text r")
         (auto simp add: generate_response_try_def split: option.splits)
  qed
qed

lemma generate_response_raises_only_uncaught:
  assumes "snd (generate_response gc message h mood) = Inl e"
  shows "\<not> is_Exception e \<and> generate_response_try gc message h mood = Inl e"
  using assms
  by (auto simp add: generate_response_def split: sum.splits exn.splits prod.splits)

lemma generate_chat_title_raises_only_uncaught:
  assumes "snd (generate_chat_title gc first_message) = Inl e"
  shows "\<not> is_Exception e \<and> generate_chat_title_try gc first_message = Inl e"
  using assms
  by (auto simp add: generate_chat_title_def split: sum.splits exn.splits)

lemma generate_chat_title_try_Inl:
  assumes "generate_chat_title_try gc first_message = Inl e"
  shows "gc (title_prompt first_message) = Inl e
         \<or> (\<exists>r. gc (title_prompt first_message) = Inr r \<and> response_text r = Inl e)"
  using assms
  by (auto simp add: generate_chat_title_try_def Let_def split: sum.splits option.splits)

lemma generate_response_text_error:
  assumes "full_prompt message h mood = Inr p" and "gc p = Inr r"
      and "response_text r = Inl (Exception cls m)"
  shows "snd (generate_response gc message h mood) = Inr error_reply"
  using assms by (simp add: generate_response_def generate_response_try_def)

lemma py_isspace_iff:
  "py_isspace c \<longleftrightarrow> c \<in> {9..13} \<union> {28..32} \<union> {133, 160, 5760} \<union> {8192..8202}
      \<union> {8232, 8233, 8239, 8287, 12288}"
  by (auto simp add: py_isspace_def)

section \<open>The claims\<close>

subsection \<open>Failure containment of reply generation\<close>

text \<open>
  Claim C1, as stated: whenever the remote generation call raises,
  \<open>generate_response\<close> returns the apology and raises nothing. When the awaited call
  raises \<open>CancelledError\<close>, which is no instance of \<open>Exception\<close>, the handler does not
  catch it: nothing is logged and the exception reaches the caller.
\<close>

theorem generate_response_cancelled_counterexample:
  "generate_response (raising (BaseExceptionOnly ''CancelledError'' [])) (ascii ''Hi'') None
       (ascii ''default'')
     = ([], Inl (BaseExceptionOnly ''CancelledError'' []))
   \<and> snd (generate_response (raising (BaseExceptionOnly ''CancelledError'' [])) (ascii ''Hi'') None
       (ascii ''default''))
     \<noteq> Inr (ascii ''I'm sorry, but I encountered an error while processing your request. Please try again later.'')"
proof -
  obtain p where "full_prompt (ascii ''Hi'') None (ascii ''default'') = Inr p"
    using full_prompt_total by blast
  then have "generate_response_try (raising (BaseExceptionOnly ''CancelledError'' []))
      (ascii ''Hi'') None (ascii ''default'') = Inl (BaseExceptionOnly ''CancelledError'' [])"
    by (simp add: generate_response_try_def raising_def)
  then show ?thesis by (simp add: generate_response_def)
qed

text \<open>
  Claim C1, amended. For every message, history and mood, if the remote generation
  call raises an error that is an instance of \<open>Exception\<close>, \<open>generate_response\<close> logs it
  and returns exactly the string "I'm sorry, but I encountered an error while processing
  your request. Please try again later."; and an exception reaches the caller of
  \<open>generate_response\<close> only when it is no instance of \<open>Exception\<close> and was raised by the
  remote call or by reading the text of its response.
\<close>

theorem generate_response_exception_caught:
  assumes "full_prompt message conversation_history mood = Inr p"
      and "generate_content p = Inl (Exception cls m)"
  shows "generate_response generate_content message conversation_history mood =
           ([(ERROR, ascii ''Error generating response with Gemini: '' @ m)],
            Inr (ascii ''I'm sorry, but I encountered an error while processing your request. Please try again later.''))
         \<and> (\<forall>e. snd (generate_response gc' message' history' mood') = Inl e
               \<longrightarrow> \<not> is_Exception e
                 \<and> (\<exists>q. full_prompt message' history' mood' = Inr q
                        \<and> (gc' q = Inl e \<or> (\<exists>r. gc' q = Inr r \<and> response_text r = Inl e))))"
proof -
  have "generate_response_try generate_content message conversation_history mood
      = Inl (Exception cls m)"
    using assms by (simp add: generate_response_try_def)
  then have "generate_response generate_content message conversation_history mood =
      ([(ERROR, ascii ''Error generating response with Gemini: '' @ m)], Inr error_reply)"
    by (rule generate_response_caught)
  moreover have "\<not> is_Exception e
      \<and> (\<exists>q. full_prompt message' history' mood' = Inr q
             \<and> (gc' q = Inl e \<or> (\<exists>r. gc' q = Inr r \<and> response_text r = Inl e)))"
    if "snd (generate_response gc' message' history' mood') = Inl e" for e
    using generate_response_raises_only_uncaught [OF that] generate_response_try_Inl by blast
  ultimately show ?thesis by (simp add: error_reply_def)
qed

theorem generate_response_exception_caught_witness:
  "generate_response (raising (Exception ''DeadlineExceeded'' (ascii ''504 timed out'')))
       (ascii ''Hi'') None (ascii ''default'') =
     ([(ERROR, ascii ''Error generating response with Gemini: 504 timed out'')],
      Inr (ascii ''I'm sorry, but I encountered an error while processing your request. Please try again later.''))"
proof -
  obtain p where p: "full_prompt (ascii ''Hi'') None (ascii ''default'') = Inr p"
    using full_prompt_total by blast
  have "raising (Exception ''DeadlineExceeded'' (ascii ''504 timed out'')) p
          = Inl (Exception ''DeadlineExceeded'' (ascii ''504 timed out''))"
    by (simp add: raising_def)
  from generate_response_exception_caught
    [where generate_content = "raising (Exception ''DeadlineExceeded'' (ascii ''504 timed out''))",
      OF p this]
  show ?thesis by simp
qed

text \<open>
  Claim C2. For every message, history and mood, if the remote call succeeds and the
  text of its response is missing or empty, \<open>generate_response\<close> logs a warning and
  returns exactly "I apologize, but I couldn't generate a response at the moment. Please
  try again.", a string different from the one returned after an error.
\<close>

theorem generate_response_empty_text:
  assumes "full_prompt message conversation_history mood = Inr p"
      and "generate_content p = Inr r"
      and "response_text r = Inr None \<or> response_text r = Inr (Some [])"
  shows "generate_response generate_content message conversation_history mood =
           ([(WARNING, ascii ''Empty response from Gemini API'')],
            Inr (ascii ''I apologize, but I couldn't generate a response at the moment. Please try again.''))
         \<and> ascii ''I apologize, but I couldn't generate a response at the moment. Please try again.''
             \<noteq> ascii ''I'm sorry, but I encountered an error while processing your request. Please try again later.''"
proof -
  from assms(3) have "\<exists>t. response_text r = Inr t \<and> nonempty_text t = None" by auto
  then obtain t where "response_text r = Inr t" "nonempty_text t = None" by blast
  then have "generate_response_try generate_content message conversation_history mood =
      Inr ([(WARNING, ascii ''Empty response from Gemini API'')], empty_reply)"
    using assms(1,2) by (simp add: generate_response_try_def)
  then show ?thesis by (simp add: generate_response_def empty_reply_def)
qed

theorem generate_response_empty_text_witness:
  "generate_response (\<lambda>p. Inr (Response (Inr (Some [])))) (ascii ''Hi'') None (ascii ''default'') =
     ([(WARNING, ascii ''Empty response from Gemini API'')],
      Inr (ascii ''I apologize, but I couldn't generate a response at the moment. Please try again.''))
   \<and> generate_response (\<lambda>p. Inr (Response (Inr None))) (ascii ''Hi'') None (ascii ''funny'') =
     ([(WARNING, ascii ''Empty response from Gemini API'')],
      Inr (ascii ''I apologize, but I couldn't generate a response at the moment. Please try again.''))"
proof -
  obtain p where p: "full_prompt (ascii ''Hi'') None (ascii ''default'') = Inr p"
    using full_prompt_total by blast
  obtain q where q: "full_prompt (ascii ''Hi'') None (ascii ''funny'') = Inr q"
    using full_prompt_total by blast
  have 1: "(\<lambda>p. Inr (Response (Inr (Some [])))) p = (Inr (Response (Inr (Some []))) :: exn + response)"
    by simp
  have 2: "(\<lambda>p. Inr (Response (Inr None))) q = (Inr (Response (Inr None)) :: exn + response)"
    by simp
  have 3: "response_text (Response (Inr (Some []))) = Inr None
         \<or> response_text (Response (Inr (Some []))) = Inr (Some [])" by simp
  have 4: "response_text (Response (Inr None)) = Inr None
         \<or> response_text (Response (Inr None)) = Inr (Some [])" by simp
  from generate_response_empty_text [OF p 1 3] generate_response_empty_text [OF q 2 4]
  show ?thesis by simp
qed

text \<open>
  Claim C10. When the remote call succeeds with a text that is not empty but holds
  whitespace only, \<open>generate_response\<close> returns the empty string, which is neither of
  the two fixed replies: the test for a non-empty text comes before the trim.
\<close>

theorem generate_response_whitespace_text:
  assumes "full_prompt message conversation_history mood = Inr p"
      and "generate_content p = Inr r"
      and "response_text r = Inr (Some t)"
      and "t \<noteq> []"
      and "list_all py_isspace t"
  shows "snd (generate_response generate_content message conversation_history mood) = Inr []
         \<and> [] \<noteq> ascii ''I apologize, but I couldn't generate a response at the moment. Please try again.''
         \<and> [] \<noteq> ascii ''I'm sorry, but I encountered an error while processing your request. Please try again later.''"
proof -
  have "nonempty_text (Some t) = Some t" using assms(4) by simp
  then have "generate_response_try generate_content message conversation_history mood =
      Inr ([], strip t)"
    using assms(1-3) by (simp add: generate_response_try_def)
  then show ?thesis
    using strip_whitespace_only [OF assms(5)] by (simp add: generate_response_def)
qed

theorem generate_response_whitespace_text_witness:
  "snd (generate_response (\<lambda>p. Inr (Response (Inr (Some [32, 10])))) (ascii ''Hi'') None (ascii ''default''))
     = Inr []"
proof -
  obtain p where p: "full_prompt (ascii ''Hi'') None (ascii ''default'') = Inr p"
    using full_prompt_total by blast
  have 1: "(\<lambda>p. Inr (Response (Inr (Some [32, 10])))) p
             = (Inr (Response (Inr (Some [32, 10]))) :: exn + response)" by simp
  have 2: "response_text (Response (Inr (Some [32, 10]))) = Inr (Some [32, 10])" by simp
  have 3: "[32, 10] \<noteq> ([] :: pystr)" by simp
  have 4: "list_all py_isspace [32, 10]" by (simp add: py_isspace_def)
  from generate_response_whitespace_text [OF p 1 2 3 4] show ?thesis by simp
qed

subsection \<open>Prompt construction\<close>

text \<open>
  Claim C3. Each of the five mood tags default, funny, roasting, precise and
  intellectual selects its own template, every other mood string selects the default
  template, and the five templates are pairwise different.
\<close>

theorem system_prompt_by_mood:
  "system_prompt (ascii ''default'') = Inr default_template
   \<and> system_prompt (ascii ''funny'') = Inr funny_template
   \<and> system_prompt (ascii ''roasting'') = Inr roasting_template
   \<and> system_prompt (ascii ''precise'') = Inr precise_template
   \<and> system_prompt (ascii ''intellectual'') = Inr intellectual_template
   \<and> (mood \<notin> {ascii ''default'', ascii ''funny'', ascii ''roasting'', ascii ''precise'',
                 ascii ''intellectual''}
        \<longrightarrow> system_prompt mood = Inr default_template)
   \<and> distinct [default_template, funny_template, roasting_template, precise_template,
                intellectual_template]"
proof -
  have sel: "system_prompt (ascii ''default'') = Inr default_template"
    "system_prompt (ascii ''funny'') = Inr funny_template"
    "system_prompt (ascii ''roasting'') = Inr roasting_template"
    "system_prompt (ascii ''precise'') = Inr precise_template"
    "system_prompt (ascii ''intellectual'') = Inr intellectual_template"
    by (simp_all add: system_prompt_eq dict_get_def mood_prompts_def)
  have other: "system_prompt mood = Inr default_template"
    if "mood \<notin> {ascii ''default'', ascii ''funny'', ascii ''roasting'', ascii ''precise'',
                   ascii ''intellectual''}"
    using that by (simp add: system_prompt_eq dict_get_def mood_prompts_def)
  have dist: "distinct [default_template, funny_template, roasting_template, precise_template,
                intellectual_template]"
    by (simp add: default_template_def funny_template_def roasting_template_def
        precise_template_def intellectual_template_def)
  from sel other dist show ?thesis by blast
qed

theorem system_prompt_by_mood_witness:
  "system_prompt (ascii ''sarcastic'') = Inr default_template
   \<and> system_prompt [] = Inr default_template
   \<and> system_prompt (ascii ''Funny'') = Inr default_template"
  using system_prompt_by_mood [of "ascii ''sarcastic''"] system_prompt_by_mood [of "[]"]
    system_prompt_by_mood [of "ascii ''Funny''"]
  by simp

text \<open>
  Claim C4. For a history of more than 10 entries the rendered context is the rendering
  of exactly its last 10 entries, in their original order; the older entries are dropped.
\<close>

theorem context_keeps_last_ten:
  assumes "length h > 10"
  shows "build_context (Some h) = concat (map render_turn (drop (length h - 10) h))
         \<and> length (drop (length h - 10) h) = 10
         \<and> (\<forall>i<10. drop (length h - 10) h ! i = h ! (length h - 10 + i))"
  using assms by (simp add: build_context_Some slice_last_drop)

theorem context_keeps_last_ten_witness:
  "build_context (Some [turn True (ascii ''a''), turn False (ascii ''b''), turn True (ascii ''c''),
      turn False (ascii ''d''), turn True (ascii ''e''), turn False (ascii ''f''),
      turn True (ascii ''g''), turn False (ascii ''h''), turn True (ascii ''i''),
      turn False (ascii ''j''), turn True (ascii ''k'')])
   = ascii ''Assistant: b'' @ [10] @ ascii ''User: c'' @ [10] @ ascii ''Assistant: d'' @ [10]
     @ ascii ''User: e'' @ [10] @ ascii ''Assistant: f'' @ [10] @ ascii ''User: g'' @ [10]
     @ ascii ''Assistant: h'' @ [10] @ ascii ''User: i'' @ [10] @ ascii ''Assistant: j'' @ [10]
     @ ascii ''User: k'' @ [10]"
proof -
  let ?h = "[turn True (ascii ''a''), turn False (ascii ''b''), turn True (ascii ''c''),
      turn False (ascii ''d''), turn True (ascii ''e''), turn False (ascii ''f''),
      turn True (ascii ''g''), turn False (ascii ''h''), turn True (ascii ''i''),
      turn False (ascii ''j''), turn True (ascii ''k'')]"
  have len: "length ?h > 10" by simp
  from context_keeps_last_ten [OF len] show ?thesis
    by (simp add: render_turn_turn)
qed

text \<open>
  Claim C6. The history of a user turn "A" and an assistant turn "B" renders as
  "User: A\nAssistant: B\n"; in general each of the turns kept is rendered as
  "User: <content>" or "Assistant: <content>" according to \<open>is_user_message\<close>, each
  followed by a newline, in the original order.
\<close>

theorem context_rendering:
  "build_context (Some [turn True (ascii ''A''), turn False (ascii ''B'')])
     = ascii ''User: A'' @ [10] @ ascii ''Assistant: B'' @ [10]
   \<and> build_context (Some (map (\<lambda>(u, c). turn u c) ts))
     = concat (map (\<lambda>(u, c). (if u then ascii ''User'' else ascii ''Assistant'') @ ascii '': '' @ c @ [10])
         (drop (length ts - 10) ts))"
proof -
  have "build_context (Some [turn True (ascii ''A''), turn False (ascii ''B'')])
     = ascii ''User: A'' @ [10] @ ascii ''Assistant: B'' @ [10]"
    by (simp add: build_context_Some slice_last_def render_turn_turn)
  moreover have "map render_turn (drop n (map (\<lambda>(u, c). turn u c) ts))
      = map (\<lambda>(u, c). (if u then ascii ''User'' else ascii ''Assistant'') @ ascii '': '' @ c @ [10])
          (drop n ts)" for n
    by (simp add: drop_map render_turn_turn split_def)
  ultimately show ?thesis
    by (simp only: build_context_Some slice_last_drop length_map)
qed

text \<open>
  Claim C5, as the specification words it: the prompt is the system prompt, a blank line,
  the section "Conversation history:\n" with the rendered context when that is not empty,
  then "User: <message>\nAssistant:". With a history of one user turn "A" and the message
  "Hi" the prompt of \<open>full_prompt\<close> has one more newline, between the context and
  "User: Hi", than this composition.
\<close>

theorem full_prompt_literal_composition_counterexample:
  "full_prompt (ascii ''Hi'') (Some [turn True (ascii ''A'')]) (ascii ''default'')
     = Inr (default_template @ [10, 10] @ ascii ''Conversation history:'' @ [10]
            @ ascii ''User: A'' @ [10, 10] @ ascii ''User: Hi'' @ [10] @ ascii ''Assistant:'')
   \<and> spec_full_prompt default_template (build_context (Some [turn True (ascii ''A'')])) (ascii ''Hi'')
     = default_template @ [10, 10] @ ascii ''Conversation history:'' @ [10]
            @ ascii ''User: A'' @ [10] @ ascii ''User: Hi'' @ [10] @ ascii ''Assistant:''
   \<and> full_prompt (ascii ''Hi'') (Some [turn True (ascii ''A'')]) (ascii ''default'')
     \<noteq> Inr (spec_full_prompt default_template (build_context (Some [turn True (ascii ''A'')]))
              (ascii ''Hi''))"
proof -
  have ctx: "build_context (Some [turn True (ascii ''A'')]) = ascii ''User: A'' @ [10]"
    by (simp add: build_context_Some slice_last_def render_turn_turn)
  note sp = system_prompt_default
  show ?thesis
    using sp ctx by (simp add: full_prompt_def spec_full_prompt_def)
qed

text \<open>
  Claim C5, amended: the prompt is the system prompt, a blank line, then, when the
  rendered context is not empty, "Conversation history:\n", the rendered context and one
  more newline, then "User: <message>\nAssistant:" and nothing after it. For the message
  "Hi" with an empty history and the default mood the prompt ends with
  "User: Hi\nAssistant:" and holds no "Conversation history:".
\<close>

theorem full_prompt_composition:
  "(\<exists>sp. system_prompt mood = Inr sp
      \<and> full_prompt message conversation_history mood
          = Inr (sp @ [10, 10]
                 @ (if build_context conversation_history = [] then []
                    else ascii ''Conversation history:'' @ [10]
                         @ build_context conversation_history @ [10])
                 @ ascii ''User: '' @ message @ [10] @ ascii ''Assistant:''))
   \<and> (\<exists>p. full_prompt (ascii ''Hi'') (Some []) (ascii ''default'') = Inr p
          \<and> suffix (ascii ''User: Hi'' @ [10] @ ascii ''Assistant:'') p
          \<and> \<not> sublist (ascii ''Conversation history:'') p)"
proof -
  have 1: "\<exists>sp. system_prompt mood = Inr sp
      \<and> full_prompt message conversation_history mood
          = Inr (sp @ [10, 10]
                 @ (if build_context conversation_history = [] then []
                    else ascii ''Conversation history:'' @ [10]
                         @ build_context conversation_history @ [10])
                 @ ascii ''User: '' @ message @ [10] @ ascii ''Assistant:'')"
    by (simp add: full_prompt_def system_prompt_eq Let_def)
  note sp = system_prompt_default
  have p: "full_prompt (ascii ''Hi'') (Some []) (ascii ''default'')
      = Inr (default_template @ [10, 10] @ ascii ''User: Hi'' @ [10] @ ascii ''Assistant:'')"
    using sp by (simp add: full_prompt_def build_context_def)
  have suf: "suffix (ascii ''User: Hi'' @ [10] @ ascii ''Assistant:'')
      (default_template @ [10, 10] @ ascii ''User: Hi'' @ [10] @ ascii ''Assistant:'')"
    by (simp add: suffix_def)
  note nosub = default_prompt_has_no_history_section
  from 1 p suf nosub show ?thesis by simp
qed

subsection \<open>Title generation\<close>

text \<open>
  Claim C7. For every non-empty text \<open>t\<close> the remote call returns, the title is made
  from the part of \<open>t\<close> left when its leading and its trailing whitespace are taken
  off (\<open>t\<close> is whitespace, that part, whitespace, and the part neither begins nor ends
  with whitespace): every double and single quote is removed from it and the result cut
  to its first 50 characters. So the title has at most 50 characters and no quote.
\<close>

theorem generate_chat_title_cleans_text:
  assumes "generate_content (title_prompt first_message) = Inr r"
      and "response_text r = Inr (Some t)"
      and "t \<noteq> []"
  shows "\<exists>a core b title.
           t = a @ core @ b \<and> list_all py_isspace a \<and> list_all py_isspace b
           \<and> (core \<noteq> [] \<longrightarrow> \<not> py_isspace (hd core) \<and> \<not> py_isspace (last core))
           \<and> title = take 50 (filter (\<lambda>c. c \<noteq> 34 \<and> c \<noteq> 39) core)
           \<and> generate_chat_title generate_content first_message = ([], Inr title)
           \<and> length title \<le> 50 \<and> 34 \<notin> set title \<and> 39 \<notin> set title"
proof -
  let ?title = "take 50 (filter (\<lambda>c. c \<noteq> 34 \<and> c \<noteq> 39) (strip t))"
  obtain a b where dec: "t = a @ strip t @ b" "list_all py_isspace a" "list_all py_isspace b"
    using strip_decomposition by blast
  have ends: "strip t \<noteq> [] \<longrightarrow> \<not> py_isspace (hd (strip t)) \<and> \<not> py_isspace (last (strip t))"
    using strip_ends by blast
  have "replace_char 39 [] (replace_char 34 [] (strip t)) = filter (\<lambda>c. c \<noteq> 34 \<and> c \<noteq> 39) (strip t)"
    by (simp add: replace_char_filter conj_commute)
  moreover have "nonempty_text (Some t) = Some t" using assms(3) by simp
  ultimately have "generate_chat_title_try generate_content first_message = Inr ?title"
    using assms(1,2) by (simp add: generate_chat_title_try_def)
  then have res: "generate_chat_title generate_content first_message = ([], Inr ?title)"
    by (simp add: generate_chat_title_def)
  have "set ?title \<subseteq> set (filter (\<lambda>c. c \<noteq> 34 \<and> c \<noteq> 39) (strip t))"
    by (rule set_take_subset)
  then have noq: "34 \<notin> set ?title" "39 \<notin> set ?title" by auto
  have len: "length ?title \<le> 50" by simp
  from dec ends res noq len show ?thesis by blast
qed

theorem generate_chat_title_cleans_text_witness:
  "(\<exists>a core b title.
      [32, 9, 34] @ ascii ''Trip' Plan'' @ [34, 32, 10] = a @ core @ b
      \<and> list_all py_isspace a \<and> list_all py_isspace b
      \<and> (core \<noteq> [] \<longrightarrow> \<not> py_isspace (hd core) \<and> \<not> py_isspace (last core))
      \<and> title = take 50 (filter (\<lambda>c. c \<noteq> 34 \<and> c \<noteq> 39) core)
      \<and> generate_chat_title (answering (Some ([32, 9, 34] @ ascii ''Trip' Plan'' @ [34, 32, 10])))
            (ascii ''hello'') = ([], Inr title)
      \<and> length title \<le> 50 \<and> 34 \<notin> set title \<and> 39 \<notin> set title)
   \<and> generate_chat_title (answering (Some ([32, 9, 34] @ ascii ''Trip' Plan'' @ [34, 32, 10])))
         (ascii ''hello'') = ([], Inr (ascii ''Trip Plan''))
   \<and> generate_chat_title (answering (Some (ascii ''Trip'' @ [10]))) (ascii ''hello'')
       = ([], Inr (ascii ''Trip''))
   \<and> generate_chat_title
        (answering (Some ([32, 34] @ ascii ''Planning a week's trip to the Amalfi coast and Rome in May'' @ [34, 10])))
        (ascii ''hello'')
       = ([], Inr (ascii ''Planning a weeks trip to the Amalfi coast and Rome''))"
proof -
  let ?t = "[32, 9, 34] @ ascii ''Trip' Plan'' @ [34, 32, 10]"
  have 1: "answering (Some ?t) (title_prompt (ascii ''hello'')) = Inr (Response (Inr (Some ?t)))"
    by (simp add: answering_def)
  have 2: "response_text (Response (Inr (Some ?t))) = Inr (Some ?t)" by simp
  have 3: "?t \<noteq> []" by simp
  note general = generate_chat_title_cleans_text
    [where generate_content = "answering (Some ?t)", OF 1 2 3]
  have a: "generate_chat_title (answering (Some ?t)) (ascii ''hello'') = ([], Inr (ascii ''Trip Plan''))"
    by (simp add: generate_chat_title_def generate_chat_title_try_def answering_def strip_def
        lstrip_def rstrip_def py_isspace_def)
  have b: "generate_chat_title (answering (Some (ascii ''Trip'' @ [10]))) (ascii ''hello'')
       = ([], Inr (ascii ''Trip''))"
    by (simp add: generate_chat_title_def generate_chat_title_try_def answering_def strip_def
        lstrip_def rstrip_def py_isspace_def)
  have c: "generate_chat_title
        (answering (Some ([32, 34] @ ascii ''Planning a week's trip to the Amalfi coast and Rome in May'' @ [34, 10])))
        (ascii ''hello'')
       = ([], Inr (ascii ''Planning a weeks trip to the Amalfi coast and Rome''))"
    by (simp add: generate_chat_title_def generate_chat_title_try_def answering_def strip_def
        lstrip_def rstrip_def py_isspace_def)
  from general a b c show ?thesis by blast
qed

text \<open>
  Claim C8, as stated: whenever the remote call raises, \<open>generate_chat_title\<close> returns
  "New Conversation" and raises nothing. When the awaited call raises \<open>CancelledError\<close>,
  which is no instance of \<open>Exception\<close>, the handler does not catch it and the exception
  reaches the caller.
\<close>

theorem generate_chat_title_cancelled_counterexample:
  "generate_chat_title (raising (BaseExceptionOnly ''CancelledError'' [])) (ascii ''hello'')
     = ([], Inl (BaseExceptionOnly ''CancelledError'' []))
   \<and> snd (generate_chat_title (raising (BaseExceptionOnly ''CancelledError'' [])) (ascii ''hello''))
     \<noteq> Inr (ascii ''New Conversation'')"
  by (simp add: generate_chat_title_def generate_chat_title_try_def raising_def)

text \<open>
  Claim C8, amended. For every first message, if the remote call raises an error that
  is an instance of \<open>Exception\<close>, or returns a missing or empty text,
  \<open>generate_chat_title\<close> returns exactly "New Conversation"; and an exception reaches
  the caller of \<open>generate_chat_title\<close> only when it is no instance of \<open>Exception\<close> and
  was raised by the remote call or by reading the text of its response.
\<close>

theorem generate_chat_title_fallback:
  assumes "generate_content (title_prompt first_message) = Inl (Exception cls m)
         \<or> (\<exists>r. generate_content (title_prompt first_message) = Inr r
                \<and> (response_text r = Inr None \<or> response_text r = Inr (Some [])))"
  shows "snd (generate_chat_title generate_content first_message) = Inr (ascii ''New Conversation'')
         \<and> (\<forall>e. snd (generate_chat_title gc' first_message') = Inl e
               \<longrightarrow> \<not> is_Exception e
                 \<and> (gc' (title_prompt first_message') = Inl e
                      \<or> (\<exists>r. gc' (title_prompt first_message') = Inr r \<and> response_text r = Inl e)))"
proof -
  from assms have "snd (generate_chat_title generate_content first_message)
      = Inr (ascii ''New Conversation'')"
  proof
    assume "generate_content (title_prompt first_message) = Inl (Exception cls m)"
    then show ?thesis
      by (simp add: generate_chat_title_def generate_chat_title_try_def)
  next
    assume "\<exists>r. generate_content (title_prompt first_message) = Inr r
                \<and> (response_text r = Inr None \<or> response_text r = Inr (Some []))"
    then obtain r t where "generate_content (title_prompt first_message) = Inr r"
      and "response_text r = Inr t" and "nonempty_text t = None" by auto
    then show ?thesis
      by (simp add: generate_chat_title_def generate_chat_title_try_def)
  qed
  moreover have "\<not> is_Exception e
      \<and> (gc' (title_prompt first_message') = Inl e
           \<or> (\<exists>r. gc' (title_prompt first_message') = Inr r \<and> response_text r = Inl e))"
    if "snd (generate_chat_title gc' first_message') = Inl e" for e
    using generate_chat_title_raises_only_uncaught [OF that] generate_chat_title_try_Inl by blast
  ultimately show ?thesis by simp
qed

theorem generate_chat_title_fallback_witness:
  "snd (generate_chat_title (raising (Exception ''ResourceExhausted'' (ascii ''429 quota'')))
         (ascii ''hello'')) = Inr (ascii ''New Conversation'')
   \<and> snd (generate_chat_title (answering (Some [])) (ascii ''hello'')) = Inr (ascii ''New Conversation'')
   \<and> snd (generate_chat_title (answering None) (ascii ''hello'')) = Inr (ascii ''New Conversation'')"
proof -
  have 1: "raising (Exception ''ResourceExhausted'' (ascii ''429 quota'')) (title_prompt (ascii ''hello''))
        = Inl (Exception ''ResourceExhausted'' (ascii ''429 quota''))
     \<or> (\<exists>r. raising (Exception ''ResourceExhausted'' (ascii ''429 quota'')) (title_prompt (ascii ''hello'')) = Inr r
                \<and> (response_text r = Inr None \<or> response_text r = Inr (Some [])))"
    by (simp add: raising_def)
  have 2: "answering (Some []) (title_prompt (ascii ''hello'')) = Inl (Exception cls m)
     \<or> (\<exists>r. answering (Some []) (title_prompt (ascii ''hello'')) = Inr r
                \<and> (response_text r = Inr None \<or> response_text r = Inr (Some [])))" for cls m
    by (simp add: answering_def)
  have 3: "answering None (title_prompt (ascii ''hello'')) = Inl (Exception cls m)
     \<or> (\<exists>r. answering None (title_prompt (ascii ''hello'')) = Inr r
                \<and> (response_text r = Inr None \<or> response_text r = Inr (Some [])))" for cls m
    by (simp add: answering_def)
  from generate_chat_title_fallback
      [where generate_content = "raising (Exception ''ResourceExhausted'' (ascii ''429 quota''))",
        OF 1]
    generate_chat_title_fallback [where generate_content = "answering (Some [])", OF 2]
    generate_chat_title_fallback [where generate_content = "answering None", OF 3]
  show ?thesis by blast
qed

subsection \<open>Construction\<close>

text \<open>
  Claim C9. Construction fails with an exception when the credential is absent
  (\<open>UndefinedValueError\<close> of the configuration lookup), empty or equal to the
  placeholder "your_gemini_api_key_here" (\<open>ValueError\<close> of the guard); with any other
  credential it passes the guard and goes on to build the model.
\<close>

theorem init_credential_guard:
  "(env (ascii ''GEMINI_API_KEY'') = None
      \<longrightarrow> (\<exists>m. init env new_model = Inl (Exception ''UndefinedValueError'' m)))
   \<and> (env (ascii ''GEMINI_API_KEY'') = Some []
        \<or> env (ascii ''GEMINI_API_KEY'') = Some (ascii ''your_gemini_api_key_here'')
      \<longrightarrow> init env new_model = Inl (Exception ''ValueError''
            (ascii ''GEMINI_API_KEY not found or not set properly in environment variables'')))
   \<and> (\<forall>key. env (ascii ''GEMINI_API_KEY'') = Some key \<and> key \<noteq> []
            \<and> key \<noteq> ascii ''your_gemini_api_key_here''
      \<longrightarrow> init env new_model = (case new_model key of
              Inl e \<Rightarrow> Inl e
            | Inr m \<Rightarrow> Inr (\<lparr>api_key = key, model = m\<rparr>,
                           [(INFO, ascii ''Gemini AI service initialized successfully'')])))"
proof (intro conjI impI allI)
  assume "env (ascii ''GEMINI_API_KEY'') = None"
  then show "\<exists>m. init env new_model = Inl (Exception ''UndefinedValueError'' m)"
    by (simp add: init_def config_def)
next
  assume "env (ascii ''GEMINI_API_KEY'') = Some []
        \<or> env (ascii ''GEMINI_API_KEY'') = Some (ascii ''your_gemini_api_key_here'')"
  then show "init env new_model = Inl (Exception ''ValueError''
            (ascii ''GEMINI_API_KEY not found or not set properly in environment variables''))"
    by (auto simp add: init_def config_def placeholder_key_def)
next
  fix key
  assume "env (ascii ''GEMINI_API_KEY'') = Some key \<and> key \<noteq> []
            \<and> key \<noteq> ascii ''your_gemini_api_key_here''"
  then show "init env new_model = (case new_model key of
              Inl e \<Rightarrow> Inl e
            | Inr m \<Rightarrow> Inr (\<lparr>api_key = key, model = m\<rparr>,
                           [(INFO, ascii ''Gemini AI service initialized successfully'')]))"
    by (simp add: init_def config_def placeholder_key_def)
qed

theorem init_credential_guard_witness:
  "(\<exists>m. init Map.empty (\<lambda>k. Inr k) = Inl (Exception ''UndefinedValueError'' m))
   \<and> init [ascii ''GEMINI_API_KEY'' \<mapsto> []] (\<lambda>k. Inr k) = Inl (Exception ''ValueError''
        (ascii ''GEMINI_API_KEY not found or not set properly in environment variables''))
   \<and> init [ascii ''GEMINI_API_KEY'' \<mapsto> ascii ''your_gemini_api_key_here''] (\<lambda>k. Inr k)
       = Inl (Exception ''ValueError''
        (ascii ''GEMINI_API_KEY not found or not set properly in environment variables''))
   \<and> init [ascii ''GEMINI_API_KEY'' \<mapsto> ascii ''AIzaSyExample''] (\<lambda>k. Inr k)
       = Inr (\<lparr>api_key = ascii ''AIzaSyExample'', model = ascii ''AIzaSyExample''\<rparr>,
              [(INFO, ascii ''Gemini AI service initialized successfully'')])"
  using init_credential_guard [of Map.empty "\<lambda>k. Inr k"]
    init_credential_guard [of "[ascii ''GEMINI_API_KEY'' \<mapsto> []]" "\<lambda>k. Inr k"]
    init_credential_guard [of "[ascii ''GEMINI_API_KEY'' \<mapsto> ascii ''your_gemini_api_key_here'']" "\<lambda>k. Inr k"]
    init_credential_guard [of "[ascii ''GEMINI_API_KEY'' \<mapsto> ascii ''AIzaSyExample'']" "\<lambda>k. Inr k"]
  by simp

end
